theory Spec2Isabelle
  imports Main
begin

section \<open>JavaScript values\<close>

text \<open>
  Order ids, rider ids and optional text fields arrive as loosely typed JSON values.
  The controllers only concatenate them into element ids, test them for truthiness and
  compare them with \<open>!=\<close>, so four shapes are enough: \<open>undefined\<close>, \<open>null\<close>,
  a number (ids are integers) and a string.
\<close>

datatype jsval = JUndefined | JNull | JNum int | JStr string

fun truthy :: "jsval \<Rightarrow> bool" where
  "truthy JUndefined = False"
| "truthy JNull = False"
| "truthy (JNum n) = (n \<noteq> 0)"
| "truthy (JStr s) = (s \<noteq> [])"

text \<open>The operator \<open>a || b\<close>.\<close>

definition js_or :: "jsval \<Rightarrow> jsval \<Rightarrow> jsval" where
  "js_or a b = (if truthy a then a else b)"

definition digit_char :: "nat \<Rightarrow> char" where
  "digit_char d = ''0123456789'' ! d"

fun string_of_nat :: "nat \<Rightarrow> string" where
  "string_of_nat n =
     (if n < 10 then [digit_char n]
      else string_of_nat (n div 10) @ [digit_char (n mod 10)])"

declare string_of_nat.simps [simp del]

text \<open>String conversion, as done by \<open>'order-' + order.id\<close> and by template literals.\<close>

fun to_string :: "jsval \<Rightarrow> string" where
  "to_string JUndefined = ''undefined''"
| "to_string JNull = ''null''"
| "to_string (JNum n) =
     (if n < 0 then CHR ''-'' # string_of_nat (nat (- n)) else string_of_nat (nat n))"
| "to_string (JStr s) = s"

text \<open>
  Numeric value of a string, as the loose comparison of a number with a string computes
  it. Plain decimal integers with an optional sign are covered and the empty string is 0;
  every other string is treated as not a number (\<open>None\<close>).
\<close>

definition digit_of :: "char \<Rightarrow> nat option" where
  "digit_of c =
     (let k = (of_char c :: nat) in if 48 \<le> k \<and> k \<le> 57 then Some (k - 48) else None)"

fun digits_value :: "nat \<Rightarrow> string \<Rightarrow> nat option" where
  "digits_value acc [] = Some acc"
| "digits_value acc (c # cs) =
     (case digit_of c of None \<Rightarrow> None | Some d \<Rightarrow> digits_value (10 * acc + d) cs)"

definition to_number :: "string \<Rightarrow> int option" where
  "to_number s =
     (case s of
        [] \<Rightarrow> Some 0
      | c # cs \<Rightarrow>
          if c = CHR ''-'' \<and> cs \<noteq> [] then map_option (\<lambda>n. - int n) (digits_value 0 cs)
          else if c = CHR ''+'' \<and> cs \<noteq> [] then map_option int (digits_value 0 cs)
          else map_option int (digits_value 0 s))"

text \<open>The loose equality \<open>a == b\<close>; \<open>a != b\<close> is its negation.\<close>

definition loose_eq :: "jsval \<Rightarrow> jsval \<Rightarrow> bool" where
  "loose_eq a b =
     (case a of
        JNum x \<Rightarrow>
          (case b of JNum y \<Rightarrow> x = y | JStr t \<Rightarrow> to_number t = Some x | _ \<Rightarrow> False)
      | JStr u \<Rightarrow>
          (case b of JNum y \<Rightarrow> to_number u = Some y | JStr t \<Rightarrow> u = t | _ \<Rightarrow> False)
      | _ \<Rightarrow> (case b of JNum y \<Rightarrow> False | JStr t \<Rightarrow> False | _ \<Rightarrow> True))"

definition loose_ne :: "jsval \<Rightarrow> jsval \<Rightarrow> bool" where
  "loose_ne a b = (\<not> loose_eq a b)"


section \<open>The rider available-orders widget (static/js/rider_available_orders.js)\<close>

subsection \<open>Page state\<close>

text \<open>
  An order as consumed by \<open>addOrderCard\<close> and \<open>handleNewOrder\<close>. The date, amount,
  item count and address only fill text nodes of the card and are left out.
\<close>

record order =
  o_id :: jsval
  o_order_number :: jsval

text \<open>
  The accept button of a card; \<open>b_onclick\<close> is the order id captured by
  \<open>acceptBtn.onclick = () => acceptOrder(order.id)\<close>.
\<close>

record button =
  b_disabled :: bool
  b_html :: string
  b_onclick :: jsval

text \<open>
  A card element. \<open>node\<close> is the identity of the DOM node: closures keep references to
  nodes, and a node cleared out of the container is a different node from a card
  rendered later for the same order.
\<close>

record card =
  node :: nat
  elem_id :: string
  data_order_id :: string
  order_number_text :: string
  faded :: bool
  accept_btn :: "button option"

text \<open>
  The element \<open>#orderCardTemplate\<close>. It is taken to hold an \<open>.order-card\<close> with the
  text slots the script writes to; the accept button is optional in the script
  (\<open>if (acceptBtn)\<close>), \<open>tpl_accept_html\<close> is its markup when it is there.
\<close>

record template =
  tpl_accept_html :: "string option"

record container_el =
  displayed :: bool
  children :: "card list"

datatype callback = RemoveCard nat | ReloadPage | LoadOrders

datatype emit = Join string | RiderOnline jsval

text \<open>
  A network call in flight. The accept call remembers the button node its
  continuation captured (\<open>btn\<close>).
\<close>

datatype request = GetAvailableOrders | PostDeliveryAccept jsval "nat option"

type_synonym toast = "string \<times> string \<times> string"

record rider_page =
  dashboard_rider :: "jsval option"
  section_rider :: "jsval option"
  io_defined :: bool
  socket :: bool
  riderId :: jsval
  container :: "container_el option"
  noOrdersEl :: "bool option"
  loadingEl :: "bool option"
  orderCardTemplate :: "template option"
  toasts :: "toast list"
  errors :: "string list"
  emitted :: "emit list"
  requests :: "request list"
  timeouts :: "(nat \<times> callback) list"
  intervals :: "(nat \<times> callback) list"
  reloaded :: bool
  fresh :: nat

text \<open>
  \<open>dashboard_rider\<close> is the \<open>data-rider-id\<close> of the \<open>.rider-dashboard\<close> element
  (\<open>None\<close> when the page has no such element), \<open>section_rider\<close> that of
  \<open>#availableOrdersSection\<close>. \<open>noOrdersEl\<close> and \<open>loadingEl\<close> hold whether the element is
  displayed, \<open>None\<close> when the element is absent. Only \<open>console.error\<close> lines are kept,
  in \<open>errors\<close>. Order cards live in the container only.
\<close>

definition getOrderCard :: "rider_page \<Rightarrow> string \<Rightarrow> card option" where
  "getOrderCard s eid =
     (case container s of
        None \<Rightarrow> None
      | Some c \<Rightarrow> find (\<lambda>k. elem_id k = eid) (children c))"

text \<open>The ids of the cards the rider can see: none while the container is hidden.\<close>

definition visible_ids :: "rider_page \<Rightarrow> string list" where
  "visible_ids s =
     (case container s of
        None \<Rightarrow> []
      | Some c \<Rightarrow> if displayed c then map data_order_id (children c) else [])"

definition showToast :: "rider_page \<Rightarrow> string \<Rightarrow> string \<Rightarrow> string \<Rightarrow> rider_page" where
  "showToast s title message kind = s\<lparr>toasts := toasts s @ [(title, message, kind)]\<rparr>"

definition setDisplay :: "bool \<Rightarrow> bool option \<Rightarrow> bool option" where
  "setDisplay v el = map_option (\<lambda>_. v) el"

definition setContainerDisplay :: "bool \<Rightarrow> container_el option \<Rightarrow> container_el option" where
  "setContainerDisplay v el = map_option (\<lambda>c. c\<lparr>displayed := v\<rparr>) el"

subsection \<open>Rendering: addOrderCard (lines 138-194)\<close>

definition newCard :: "rider_page \<Rightarrow> template \<Rightarrow> order \<Rightarrow> card" where
  "newCard s t order =
     \<lparr>node = fresh s,
      elem_id = ''order-'' @ to_string (o_id order),
      data_order_id = to_string (o_id order),
      order_number_text =
        to_string (js_or (o_order_number order) (JStr (''ORD-'' @ to_string (o_id order)))),
      faded = False,
      accept_btn =
        map_option (\<lambda>h. \<lparr>b_disabled = False, b_html = h, b_onclick = o_id order\<rparr>)
          (tpl_accept_html t)\<rparr>"

definition addOrderCard :: "rider_page \<Rightarrow> order \<Rightarrow> rider_page" where
  "addOrderCard s order =
     (case container s of
        None \<Rightarrow> s\<lparr>errors := errors s @ [''Container or template not found!'']\<rparr>
      | Some c \<Rightarrow>
          (case orderCardTemplate s of
             None \<Rightarrow> s\<lparr>errors := errors s @ [''Container or template not found!'']\<rparr>
           | Some t \<Rightarrow>
               if getOrderCard s (''order-'' @ to_string (o_id order)) \<noteq> None then s
               else s\<lparr>container := Some (c\<lparr>children := newCard s t order # children c\<rparr>),
                      fresh := Suc (fresh s)\<rparr>))"

subsection \<open>Removing a card: removeOrderCard (lines 320-336)\<close>

definition updateCard :: "nat \<Rightarrow> (card \<Rightarrow> card) \<Rightarrow> rider_page \<Rightarrow> rider_page" where
  "updateCard n f s =
     s\<lparr>container :=
         map_option (\<lambda>c. c\<lparr>children := map (\<lambda>k. if node k = n then f k else k) (children c)\<rparr>)
           (container s)\<rparr>"

text \<open>
  The call fades the card and defers the removal by 300 ms; the deferred callback holds
  the node.
\<close>

definition removeOrderCard :: "rider_page \<Rightarrow> jsval \<Rightarrow> rider_page" where
  "removeOrderCard s orderId =
     (case getOrderCard s (''order-'' @ to_string orderId) of
        None \<Rightarrow> s
      | Some k \<Rightarrow>
          (let s1 = updateCard (node k) (\<lambda>c. c\<lparr>faded := True\<rparr>) s
           in s1\<lparr>timeouts := timeouts s1 @ [(300, RemoveCard (node k))]\<rparr>))"

text \<open>
  The deferred callback (lines 325-334): \<open>card.remove()\<close> detaches the node if it is
  still in the container, then an empty container is hidden and the message shown.
\<close>

definition removeCard_timeout :: "rider_page \<Rightarrow> nat \<Rightarrow> rider_page" where
  "removeCard_timeout s n =
     (case container s of
        None \<Rightarrow> s
      | Some c \<Rightarrow>
          (let rest = filter (\<lambda>k. node k \<noteq> n) (children c)
           in if rest = []
              then s\<lparr>container := Some (c\<lparr>displayed := False, children := rest\<rparr>),
                     noOrdersEl := setDisplay True (noOrdersEl s)\<rparr>
              else s\<lparr>container := Some (c\<lparr>children := rest\<rparr>)\<rparr>))"

subsection \<open>Snapshot fetch: loadAvailableOrders (lines 95-133)\<close>

text \<open>
  The body of a JSON response, one shape for both endpoints: \<open>success\<close> (by
  truthiness), \<open>message\<close>, and \<open>orders\<close> (\<open>None\<close> when the field is missing).
\<close>

record json =
  j_success :: bool
  j_message :: jsval
  j_orders :: "order list option"

definition orders_of :: "json \<Rightarrow> order list" where
  "orders_of data = (case j_orders data of None \<Rightarrow> [] | Some os \<Rightarrow> os)"

definition loadAvailableOrders :: "rider_page \<Rightarrow> rider_page" where
  "loadAvailableOrders s =
     s\<lparr>loadingEl := setDisplay True (loadingEl s),
       noOrdersEl := setDisplay False (noOrdersEl s),
       container := setContainerDisplay False (container s),
       requests := requests s @ [GetAvailableOrders]\<rparr>"

definition loadAvailableOrders_then :: "rider_page \<Rightarrow> json \<Rightarrow> rider_page" where
  "loadAvailableOrders_then s data =
     (let s1 = s\<lparr>loadingEl := setDisplay False (loadingEl s)\<rparr>
      in if j_success data \<and> orders_of data \<noteq> []
         then foldl addOrderCard
                (s1\<lparr>container :=
                      map_option (\<lambda>c. c\<lparr>displayed := True, children := []\<rparr>) (container s1),
                    noOrdersEl := setDisplay False (noOrdersEl s1)\<rparr>)
                (orders_of data)
         else s1\<lparr>container := setContainerDisplay False (container s1),
                 noOrdersEl := setDisplay True (noOrdersEl s1)\<rparr>)"

definition loadAvailableOrders_catch :: "rider_page \<Rightarrow> rider_page" where
  "loadAvailableOrders_catch s =
     showToast
       (s\<lparr>errors := errors s @ [''Error loading orders:''],
          loadingEl := setDisplay False (loadingEl s)\<rparr>)
       ''Error'' ''Failed to load orders'' ''danger''"

subsection \<open>Accepting an order: acceptOrder (lines 199-240)\<close>

definition setButton :: "nat \<Rightarrow> bool \<Rightarrow> string \<Rightarrow> rider_page \<Rightarrow> rider_page" where
  "setButton n dis html s =
     updateCard n
       (\<lambda>k. k\<lparr>accept_btn := map_option (\<lambda>b. b\<lparr>b_disabled := dis, b_html := html\<rparr>) (accept_btn k)\<rparr>)
       s"

definition accepting_html :: string where
  "accepting_html =
     ''<span class=\"spinner-border spinner-border-sm me-1\"></span> Accepting...''"

definition accept_html :: string where
  "accept_html = ''<i class=\"fas fa-check-circle me-1\"></i> Accept''"

text \<open>
  \<open>confirmed\<close> is the rider's answer to the \<open>confirm\<close> dialog. \<open>btn\<close> is the accept
  button of the card found for the id, if any.
\<close>

definition findAcceptBtn :: "rider_page \<Rightarrow> jsval \<Rightarrow> nat option" where
  "findAcceptBtn s orderId =
     (case getOrderCard s (''order-'' @ to_string orderId) of
        None \<Rightarrow> None
      | Some k \<Rightarrow> (case accept_btn k of None \<Rightarrow> None | Some b \<Rightarrow> Some (node k)))"

definition acceptOrder :: "rider_page \<Rightarrow> bool \<Rightarrow> jsval \<Rightarrow> rider_page" where
  "acceptOrder s confirmed orderId =
     (if \<not> confirmed then s
      else
        (let btn = findAcceptBtn s orderId;
             s1 = (case btn of None \<Rightarrow> s | Some n \<Rightarrow> setButton n True accepting_html s)
         in s1\<lparr>requests := requests s1 @ [PostDeliveryAccept orderId btn]\<rparr>))"

definition acceptOrder_then :: "rider_page \<Rightarrow> jsval \<Rightarrow> nat option \<Rightarrow> json \<Rightarrow> rider_page" where
  "acceptOrder_then s orderId btn data =
     (if j_success data then
        (let s1 = showToast s ''Success!'' ''Delivery accepted successfully'' ''success'';
             s2 = removeOrderCard s1 orderId
         in s2\<lparr>timeouts := timeouts s2 @ [(1000, ReloadPage)]\<rparr>)
      else
        (let s1 = showToast s ''Failed''
                    (to_string (js_or (j_message data) (JStr ''Could not accept delivery'')))
                    ''danger''
         in case btn of None \<Rightarrow> s1 | Some n \<Rightarrow> setButton n False accept_html s1))"

definition acceptOrder_catch :: "rider_page \<Rightarrow> nat option \<Rightarrow> rider_page" where
  "acceptOrder_catch s btn =
     (let s1 = showToast (s\<lparr>errors := errors s @ [''Error:'']\<rparr>)
                 ''Error'' ''Failed to accept delivery'' ''danger''
      in case btn of None \<Rightarrow> s1 | Some n \<Rightarrow> setButton n False accept_html s1)"

subsection \<open>Push handlers (lines 286-315)\<close>

text \<open>The payload is either \<open>{order: {...}}\<close> or the order itself (\<open>data.order || data\<close>).\<close>

datatype new_order_data = Wrapped order | Bare order

fun unwrap :: "new_order_data \<Rightarrow> order" where
  "unwrap (Wrapped order) = order"
| "unwrap (Bare order) = order"

definition handleNewOrder :: "rider_page \<Rightarrow> new_order_data \<Rightarrow> rider_page" where
  "handleNewOrder s data =
     (let order = unwrap data
      in if \<not> truthy (o_id order) then s
         else
           (let s1 = s\<lparr>container := setContainerDisplay True (container s),
                       noOrdersEl := setDisplay False (noOrdersEl s)\<rparr>;
                s2 = addOrderCard s1 order
            in showToast s2 ''New Order!''
                 (''Order '' @ to_string (js_or (o_order_number order) (o_id order))
                    @ '' is available'')
                 ''info''))"

record taken_data =
  td_order_id :: jsval
  td_orderId :: jsval

definition handleOrderTaken :: "rider_page \<Rightarrow> taken_data \<Rightarrow> rider_page" where
  "handleOrderTaken s data = removeOrderCard s (js_or (td_order_id data) (td_orderId data))"

record accepted_data =
  ad_order_id :: jsval
  ad_rider_id :: jsval

definition handleOrderAccepted :: "rider_page \<Rightarrow> accepted_data \<Rightarrow> rider_page" where
  "handleOrderAccepted s data =
     (if loose_ne (ad_rider_id data) (riderId s) then removeOrderCard s (ad_order_id data)
      else s)"

subsection \<open>Connection and start-up (lines 16-90)\<close>

definition initializeWebSocket :: "rider_page \<Rightarrow> rider_page" where
  "initializeWebSocket s =
     (if \<not> io_defined s then s\<lparr>errors := errors s @ [''Socket.IO not loaded!'']\<rparr>
      else s\<lparr>socket := True\<rparr>)"

definition on_connect :: "rider_page \<Rightarrow> rider_page" where
  "on_connect s =
     s\<lparr>emitted := emitted s @
         [Join (''rider_'' @ to_string (riderId s)), Join ''available_orders'',
          RiderOnline (riderId s)]\<rparr>"

definition on_reconnect :: "rider_page \<Rightarrow> rider_page" where
  "on_reconnect s = loadAvailableOrders s"

text \<open>The period of the refresh timer (line 43), in milliseconds.\<close>

definition polling_interval_ms :: nat where
  "polling_interval_ms = 60000"

text \<open>
  The \<open>DOMContentLoaded\<close> handler. The refresh and retry buttons wired by
  \<open>setupEventHandlers\<close> only call \<open>loadAvailableOrders\<close> again and are not part of
  the state.
\<close>

definition domContentLoaded :: "rider_page \<Rightarrow> rider_page" where
  "domContentLoaded s =
     (let rid = (case dashboard_rider s of
                   Some r \<Rightarrow> r
                 | None \<Rightarrow> (case section_rider s of Some r \<Rightarrow> r | None \<Rightarrow> riderId s));
          s1 = s\<lparr>riderId := rid\<rparr>
      in if \<not> truthy rid then s1\<lparr>errors := errors s1 @ [''Rider ID not found!'']\<rparr>
         else
           (let s2 = loadAvailableOrders (initializeWebSocket s1)
            in s2\<lparr>intervals := intervals s2 @ [(polling_interval_ms, LoadOrders)]\<rparr>))"

subsection \<open>The event loop\<close>

text \<open>
  Everything that reaches the page after start-up: socket events, the rider's clicks,
  answers to pending network calls, and timers coming due. The browser does not deliver
  clicks to a disabled button. \<open>ModalAcceptClick\<close> is the accept button of the details
  modal (lines 266-271), which calls \<open>acceptOrder\<close> directly.
\<close>

datatype event =
    SocketConnect
  | SocketDisconnect
  | SocketReconnect
  | NewOrderEvent new_order_data
  | OrderTakenEvent taken_data
  | OrderAcceptedEvent accepted_data
  | CardAcceptClick nat bool
  | ModalAcceptClick jsval bool
  | Response nat "json option"
  | TimeoutFires nat
  | IntervalFires nat

definition clickAcceptBtn :: "rider_page \<Rightarrow> nat \<Rightarrow> bool \<Rightarrow> rider_page" where
  "clickAcceptBtn s n confirmed =
     (case container s of
        None \<Rightarrow> s
      | Some c \<Rightarrow>
          (case find (\<lambda>k. node k = n) (children c) of
             None \<Rightarrow> s
           | Some k \<Rightarrow>
               (case accept_btn k of
                  None \<Rightarrow> s
                | Some b \<Rightarrow> if b_disabled b then s else acceptOrder s confirmed (b_onclick b))))"

definition remove_nth :: "nat \<Rightarrow> 'a list \<Rightarrow> 'a list" where
  "remove_nth k xs = take k xs @ drop (Suc k) xs"

text \<open>The answer to the \<open>k\<close>-th pending call; \<open>None\<close> is a rejected promise.\<close>

definition respond :: "rider_page \<Rightarrow> nat \<Rightarrow> json option \<Rightarrow> rider_page" where
  "respond s k r =
     (if k < length (requests s) then
        (let s1 = s\<lparr>requests := remove_nth k (requests s)\<rparr>
         in case requests s ! k of
              GetAvailableOrders \<Rightarrow>
                (case r of None \<Rightarrow> loadAvailableOrders_catch s1
                 | Some data \<Rightarrow> loadAvailableOrders_then s1 data)
            | PostDeliveryAccept orderId btn \<Rightarrow>
                (case r of None \<Rightarrow> acceptOrder_catch s1 btn
                 | Some data \<Rightarrow> acceptOrder_then s1 orderId btn data))
      else s)"

fun run_callback :: "rider_page \<Rightarrow> callback \<Rightarrow> rider_page" where
  "run_callback s (RemoveCard n) = removeCard_timeout s n"
| "run_callback s ReloadPage = s\<lparr>reloaded := True\<rparr>"
| "run_callback s LoadOrders = loadAvailableOrders s"

definition fire_timeout :: "rider_page \<Rightarrow> nat \<Rightarrow> rider_page" where
  "fire_timeout s k =
     (if k < length (timeouts s)
      then run_callback (s\<lparr>timeouts := remove_nth k (timeouts s)\<rparr>) (snd (timeouts s ! k))
      else s)"

definition fire_interval :: "rider_page \<Rightarrow> nat \<Rightarrow> rider_page" where
  "fire_interval s k =
     (if k < length (intervals s) then run_callback s (snd (intervals s ! k)) else s)"

text \<open>
  Socket handlers exist only once \<open>initializeWebSocket\<close> has created the socket; after
  \<open>window.location.reload()\<close> the page is gone and nothing more is handled.
\<close>

fun handle_socket :: "rider_page \<Rightarrow> event \<Rightarrow> rider_page" where
  "handle_socket s SocketConnect = on_connect s"
| "handle_socket s SocketReconnect = on_reconnect s"
| "handle_socket s (NewOrderEvent d) = handleNewOrder s d"
| "handle_socket s (OrderTakenEvent d) = handleOrderTaken s d"
| "handle_socket s (OrderAcceptedEvent d) = handleOrderAccepted s d"
| "handle_socket s e = s"

fun is_socket_event :: "event \<Rightarrow> bool" where
  "is_socket_event (CardAcceptClick n c) = False"
| "is_socket_event (ModalAcceptClick i c) = False"
| "is_socket_event (Response k r) = False"
| "is_socket_event (TimeoutFires k) = False"
| "is_socket_event (IntervalFires k) = False"
| "is_socket_event e = True"

fun handle_local :: "rider_page \<Rightarrow> event \<Rightarrow> rider_page" where
  "handle_local s (CardAcceptClick n c) = clickAcceptBtn s n c"
| "handle_local s (ModalAcceptClick i c) = acceptOrder s c i"
| "handle_local s (Response k r) = respond s k r"
| "handle_local s (TimeoutFires k) = fire_timeout s k"
| "handle_local s (IntervalFires k) = fire_interval s k"
| "handle_local s e = s"

definition handle :: "rider_page \<Rightarrow> event \<Rightarrow> rider_page" where
  "handle s e =
     (if reloaded s then s
      else if is_socket_event e then (if socket s then handle_socket s e else s)
      else handle_local s e)"

definition run :: "rider_page \<Rightarrow> event list \<Rightarrow> rider_page" where
  "run s es = foldl handle s es"


section \<open>The rider dashboard socket client (class RiderWebSocket)\<close>

text \<open>
  The accept button of an order element. \<open>wb_node\<close> is the identity of the button,
  \<open>wb_order_id\<close> its \<open>data-order-id\<close>.
\<close>

record ws_button =
  wb_node :: nat
  wb_order_id :: jsval
  wb_disabled :: bool
  wb_html :: string

record order_el =
  oe_id :: string
  oe_btn :: ws_button

text \<open>
  A child of \<open>#available-orders-list\<close>: the "no orders" alert or an order element.
\<close>

datatype list_child = InfoAlert | OrderElement order_el

datatype ws_emit = WsRiderOnline jsval | JoinRidersRoom | UpdateLocation jsval

text \<open>
  A network call in flight; the accept call with what its continuation holds, the button
  and \<open>originalText\<close>.
\<close>

datatype ws_request = WsAcceptOrder jsval nat string | WsAvailableOrders | WsUpdateLocation

record rws =
  ws_riderId :: jsval
  ws_list :: "list_child list option"
  ws_status :: "bool option"
  ws_toasts :: "toast list"
  ws_errors :: "string list"
  ws_emitted :: "ws_emit list"
  ws_requests :: "ws_request list"
  ws_location :: "string option"
  ws_fresh :: nat


definition updateConnectionStatus :: "rws \<Rightarrow> bool \<Rightarrow> rws" where
  "updateConnectionStatus s connected = s\<lparr>ws_status := map_option (\<lambda>_. connected) (ws_status s)\<rparr>"

text \<open>The \<open>connect\<close> handler (lines 23-34) and the \<open>reconnect\<close> handler (lines 59-64).\<close>

definition ws_on_connect :: "rws \<Rightarrow> rws" where
  "ws_on_connect s =
     updateConnectionStatus
       (s\<lparr>ws_emitted := ws_emitted s @ [WsRiderOnline (ws_riderId s), JoinRidersRoom]\<rparr>) True"

definition ws_on_reconnect :: "rws \<Rightarrow> rws" where
  "ws_on_reconnect s =
     updateConnectionStatus
       (s\<lparr>ws_emitted := ws_emitted s @ [WsRiderOnline (ws_riderId s), JoinRidersRoom]\<rparr>) True"

definition ws_on_disconnect :: "rws \<Rightarrow> rws" where
  "ws_on_disconnect s = updateConnectionStatus s False"

definition ws_on_connect_error :: "rws \<Rightarrow> rws" where
  "ws_on_connect_error s =
     updateConnectionStatus (s\<lparr>ws_errors := ws_errors s @ [''WebSocket connection error:'']\<rparr>) False"

datatype ws_conn_event = WsConnect | WsDisconnect | WsReconnect | WsConnectError

fun ws_conn_handle :: "rws \<Rightarrow> ws_conn_event \<Rightarrow> rws" where
  "ws_conn_handle s WsConnect = ws_on_connect s"
| "ws_conn_handle s WsDisconnect = ws_on_disconnect s"
| "ws_conn_handle s WsReconnect = ws_on_reconnect s"
| "ws_conn_handle s WsConnectError = ws_on_connect_error s"











fun order_ids_of :: "list_child list \<Rightarrow> string list" where
  "order_ids_of [] = []"
| "order_ids_of (InfoAlert # r) = order_ids_of r"
| "order_ids_of (OrderElement e # r) = oe_id e # order_ids_of r"

definition ws_order_ids :: "rws \<Rightarrow> string list" where
  "ws_order_ids s = (case ws_list s of None \<Rightarrow> [] | Some ch \<Rightarrow> order_ids_of ch)"

fun on_button :: "nat \<Rightarrow> (ws_button \<Rightarrow> ws_button) \<Rightarrow> list_child \<Rightarrow> list_child" where
  "on_button n f InfoAlert = InfoAlert"
| "on_button n f (OrderElement e) =
     (if wb_node (oe_btn e) = n then OrderElement (e\<lparr>oe_btn := f (oe_btn e)\<rparr>)
      else OrderElement e)"








text \<open>
  The document-level click listener (lines 75-82); a disabled button receives no click.
\<close>

fun find_button :: "nat \<Rightarrow> list_child list \<Rightarrow> ws_button option" where
  "find_button n [] = None"
| "find_button n (InfoAlert # r) = find_button n r"
| "find_button n (OrderElement e # r) =
     (if wb_node (oe_btn e) = n then Some (oe_btn e) else find_button n r)"

definition ws_find_button :: "rws \<Rightarrow> nat \<Rightarrow> ws_button option" where
  "ws_find_button s n = (case ws_list s of None \<Rightarrow> None | Some ch \<Rightarrow> find_button n ch)"



section \<open>The rider dashboard page script (static/js/rider_dashboard.js)\<close>

text \<open>
  \<open>addOrderToAvailableOrders\<close> (lines 353-456) reads \<open>order.order_id\<close> and finds cards
  by their \<open>data-order-id\<close> attribute.
\<close>

record dcard =
  dc_order_id :: string
  dc_number :: string

record dorder =
  do_order_id :: jsval
  do_order_number :: jsval

record dash =
  d_container :: "dcard list option"
  d_noOrdersMessage :: "bool option"
  d_template :: bool
  d_notifications :: "(string \<times> string) list"
  d_errors :: "string list"

datatype outcome = Returned | Threw string

text \<open>The text a \<open>textContent\<close> assignment leaves in the node.\<close>

definition text_content :: "jsval \<Rightarrow> string" where
  "text_content v = (case v of JUndefined \<Rightarrow> [] | JNull \<Rightarrow> [] | _ \<Rightarrow> to_string v)"

fun update_first :: "('a \<Rightarrow> bool) \<Rightarrow> ('a \<Rightarrow> 'a) \<Rightarrow> 'a list \<Rightarrow> 'a list" where
  "update_first P f [] = []"
| "update_first P f (x # xs) = (if P x then f x # xs else x # update_first P f xs)"

definition showNotification :: "dash \<Rightarrow> string \<Rightarrow> string \<Rightarrow> dash" where
  "showNotification s message kind = s\<lparr>d_notifications := d_notifications s @ [(message, kind)]\<rparr>"

text \<open>
  Two names the function uses are bound nowhere in the file. \<open>updateExistingOrder\<close> is
  a parameter: \<open>None\<close> when no other script of the page defines it (the call then raises a
  ReferenceError), otherwise what it does to the existing card. After the notification the
  body goes on with \<open>modal.show()\<close>, and \<open>modal\<close> is not bound in that scope.
\<close>

definition addOrderToAvailableOrders ::
  "(dcard \<Rightarrow> dorder \<Rightarrow> dcard) option \<Rightarrow> dash \<Rightarrow> dorder \<Rightarrow> outcome \<times> dash" where
  "addOrderToAvailableOrders updateExistingOrder s order =
     (case d_container s of
        None \<Rightarrow> (Returned, s\<lparr>d_errors := d_errors s @ [''Available orders container not found'']\<rparr>)
      | Some ch \<Rightarrow>
          (let s1 = s\<lparr>d_noOrdersMessage := setDisplay False (d_noOrdersMessage s)\<rparr>;
               key = to_string (do_order_id order)
           in if find (\<lambda>k. dc_order_id k = key) ch \<noteq> None then
                (case updateExistingOrder of
                   None \<Rightarrow> (Threw ''updateExistingOrder is not defined'', s1)
                 | Some f \<Rightarrow>
                     (Returned,
                      s1\<lparr>d_container :=
                           Some (update_first (\<lambda>k. dc_order_id k = key) (\<lambda>k. f k order) ch)\<rparr>))
              else if \<not> d_template s then
                (Returned, s1\<lparr>d_errors := d_errors s1 @ [''Order card template not found'']\<rparr>)
              else
                (Threw ''modal is not defined'',
                 showNotification
                   (s1\<lparr>d_container :=
                        Some (\<lparr>dc_order_id = key,
                               dc_number = text_content
                                 (js_or (do_order_number order) (do_order_id order))\<rparr> # ch)\<rparr>)
                   (''New order #''
                      @ to_string (js_or (do_order_number order) (do_order_id order))
                      @ '' is available for delivery!'')
                   ''success'')))"


section \<open>The seller dashboard socket client (class SellerWebSocket)\<close>

record sbutton =
  sb_node :: nat
  sb_status :: string
  sb_disabled :: bool
  sb_html :: string

text \<open>
  The \<open>.text-end\<close> cell of a card: the status buttons and the "View Details" link.
\<close>

record sactions =
  sa_buttons :: "sbutton list"
  sa_view_details :: bool

text \<open>An order card: element id, badge (class name and text), actions cell.\<close>

record scard =
  sc_elem_id :: string
  sc_badge :: "(string \<times> string) option"
  sc_actions :: "sactions option"

datatype sl_emit = JoinSellerRoom jsval

datatype sl_request = SlUpdateStatus jsval jsval "nat option" string

record seller =
  sl_sellerId :: jsval
  sl_cards :: "scard list"
  sl_status :: "bool option"
  sl_toasts :: "toast list"
  sl_errors :: "string list"
  sl_emitted :: "sl_emit list"
  sl_requests :: "sl_request list"
  sl_fresh :: nat


definition sl_updateConnectionStatus :: "seller \<Rightarrow> bool \<Rightarrow> seller" where
  "sl_updateConnectionStatus s connected =
     s\<lparr>sl_status := map_option (\<lambda>_. connected) (sl_status s)\<rparr>"

text \<open>The \<open>connect\<close> handler (lines 24-32) and the \<open>reconnect\<close> handler (lines 64-68).\<close>

definition sl_on_connect :: "seller \<Rightarrow> seller" where
  "sl_on_connect s =
     sl_updateConnectionStatus
       (s\<lparr>sl_emitted := sl_emitted s @ [JoinSellerRoom (sl_sellerId s)]\<rparr>) True"

definition sl_on_reconnect :: "seller \<Rightarrow> seller" where
  "sl_on_reconnect s =
     sl_updateConnectionStatus
       (s\<lparr>sl_emitted := sl_emitted s @ [JoinSellerRoom (sl_sellerId s)]\<rparr>) True"

definition sl_on_disconnect :: "seller \<Rightarrow> seller" where
  "sl_on_disconnect s = sl_updateConnectionStatus s False"

datatype sl_conn_event = SlConnect | SlDisconnect | SlReconnect

fun sl_conn_handle :: "seller \<Rightarrow> sl_conn_event \<Rightarrow> seller" where
  "sl_conn_handle s SlConnect = sl_on_connect s"
| "sl_conn_handle s SlDisconnect = sl_on_disconnect s"
| "sl_conn_handle s SlReconnect = sl_on_reconnect s"













section \<open>Observations and invariants\<close>

text \<open>The ids of all cards in the container, shown or not.\<close>

definition card_ids :: "rider_page \<Rightarrow> string list" where
  "card_ids s = (case container s of None \<Rightarrow> [] | Some c \<Rightarrow> map data_order_id (children c))"

text \<open>Every card carries the element id that \<open>addOrderCard\<close> gives it.\<close>

definition well_keyed :: "container_el \<Rightarrow> bool" where
  "well_keyed c = list_all (\<lambda>k. elem_id k = ''order-'' @ data_order_id k) (children c)"

text \<open>Insertion at the front unless the id is there, on id lists.\<close>

definition ins_id :: "string \<Rightarrow> string list \<Rightarrow> string list" where
  "ins_id key ks = (if key \<in> set ks then ks else key # ks)"

text \<open>Lines 295-296 of \<open>handleNewOrder\<close>: show the container, hide the message.\<close>

definition show_orders :: "rider_page \<Rightarrow> rider_page" where
  "show_orders s = s\<lparr>container := setContainerDisplay True (container s),
                     noOrdersEl := setDisplay False (noOrdersEl s)\<rparr>"

text \<open>The accept button of the card with node \<open>n\<close>, if the card is in the container.\<close>

definition accept_button :: "rider_page \<Rightarrow> nat \<Rightarrow> button option" where
  "accept_button s n =
     (case container s of
        None \<Rightarrow> None
      | Some c \<Rightarrow>
          (case find (\<lambda>k. node k = n) (children c) of None \<Rightarrow> None | Some k \<Rightarrow> accept_btn k))"





section \<open>Example pages\<close>

text \<open>
  A page before start-up: rider 7, all elements present, nothing rendered; and orders,
  a snapshot of orders 1 and 2, and the page after start-up, connect and that snapshot.
\<close>

definition example_page :: rider_page where
  "example_page =
     \<lparr>dashboard_rider = Some (JStr ''7''), section_rider = None, io_defined = True,
      socket = False, riderId = JNull,
      container = Some \<lparr>displayed = False, children = []\<rparr>,
      noOrdersEl = Some False, loadingEl = Some False,
      orderCardTemplate = Some \<lparr>tpl_accept_html = Some accept_html\<rparr>,
      toasts = [], errors = [], emitted = [], requests = [], timeouts = [], intervals = [],
      reloaded = False, fresh = 0\<rparr>"

definition example_order :: "int \<Rightarrow> order" where
  "example_order n = \<lparr>o_id = JNum n, o_order_number = JUndefined\<rparr>"

definition example_snapshot :: json where
  "example_snapshot =
     \<lparr>j_success = True, j_message = JUndefined,
      j_orders = Some [example_order 1, example_order 2]\<rparr>"


definition example_loaded :: rider_page where
  "example_loaded =
     run (domContentLoaded example_page) [SocketConnect, Response 0 (Some example_snapshot)]"

definition example_dash :: dash where
  "example_dash =
     \<lparr>d_container = Some [\<lparr>dc_order_id = ''4'', dc_number = ''ORD-4''\<rparr>],
      d_noOrdersMessage = Some False, d_template = True, d_notifications = [], d_errors = []\<rparr>"



definition example_dorder :: dorder where
  "example_dorder = \<lparr>do_order_id = JNum 4, do_order_number = JUndefined\<rparr>"

text \<open>The card that \<open>addOrderCard\<close> renders for \<open>example_order i\<close> as node \<open>n\<close>.\<close>

definition example_card :: "nat \<Rightarrow> int \<Rightarrow> card" where
  "example_card n i =
     \<lparr>node = n, elem_id = ''order-'' @ to_string (JNum i), data_order_id = to_string (JNum i),
      order_number_text = ''ORD-'' @ to_string (JNum i), faded = False,
      accept_btn = Some \<lparr>b_disabled = False, b_html = accept_html, b_onclick = JNum i\<rparr>\<rparr>"


text \<open>
  A seller page with order 9 in status confirmed, and the body of an answer that reports a
  refusal.
\<close>

definition example_ship_button :: sbutton where
  "example_ship_button =
     \<lparr>sb_node = 0, sb_status = ''shipped'', sb_disabled = False, sb_html = ''Mark as Shipped''\<rparr>"

definition example_seller :: seller where
  "example_seller =
     \<lparr>sl_sellerId = JStr ''3'',
      sl_cards =
        [\<lparr>sc_elem_id = ''order-9'', sc_badge = Some (''badge bg-info'', ''Confirmed''),
          sc_actions =
            Some \<lparr>sa_buttons =
                    [example_ship_button,
                     \<lparr>sb_node = 1, sb_status = ''cancelled'', sb_disabled = False,
                      sb_html = ''Cancel''\<rparr>],
                  sa_view_details = True\<rparr>\<rparr>],
      sl_status = Some True, sl_toasts = [], sl_errors = [], sl_emitted = [],
      sl_requests = [], sl_fresh = 2\<rparr>"







section \<open>Properties of the rider available-orders widget\<close>

subsection \<open>Evaluating the examples\<close>

lemmas js_eval = string_of_nat.simps digit_char_def js_or_def

lemma example_loaded_eq:
  "example_loaded =
     example_page\<lparr>riderId := JStr ''7'', socket := True, loadingEl := Some False,
       container := Some \<lparr>displayed = True, children = [example_card 1 2, example_card 0 1]\<rparr>,
       emitted := [Join ''rider_7'', Join ''available_orders'', RiderOnline (JStr ''7'')],
       requests := [], intervals := [(60000, LoadOrders)], fresh := 2\<rparr>"
  by (simp add: example_loaded_def run_def handle_def on_connect_def
      domContentLoaded_def initializeWebSocket_def loadAvailableOrders_def
      respond_def remove_nth_def loadAvailableOrders_then_def example_snapshot_def orders_of_def
      addOrderCard_def getOrderCard_def newCard_def example_order_def js_or_def
      example_page_def setDisplay_def setContainerDisplay_def Let_def example_card_def
      polling_interval_ms_def string_of_nat.simps digit_char_def)


subsection \<open>Basic facts about addOrderCard\<close>

lemma find_elem_id:
  "well_keyed c \<Longrightarrow>
   (find (\<lambda>k. elem_id k = ''order-'' @ key) (children c) \<noteq> None)
     = (key \<in> set (map data_order_id (children c)))"
  by (auto simp: well_keyed_def list_all_iff find_None_iff)

lemma addOrderCard_other [simp]:
  "noOrdersEl (addOrderCard s order) = noOrdersEl s"
  "loadingEl (addOrderCard s order) = loadingEl s"
  "orderCardTemplate (addOrderCard s order) = orderCardTemplate s"
  "riderId (addOrderCard s order) = riderId s"
  "toasts (addOrderCard s order) = toasts s"
  "requests (addOrderCard s order) = requests s"
  "timeouts (addOrderCard s order) = timeouts s"
  "intervals (addOrderCard s order) = intervals s"
  "emitted (addOrderCard s order) = emitted s"
  "reloaded (addOrderCard s order) = reloaded s"
  "socket (addOrderCard s order) = socket s"
  by (simp_all add: addOrderCard_def split: option.splits)

lemma addOrderCard_container:
  assumes "container s = Some c" "orderCardTemplate s = Some t" "well_keyed c"
  shows "\<exists>c'. container (addOrderCard s order) = Some c' \<and> displayed c' = displayed c
           \<and> map data_order_id (children c')
               = ins_id (to_string (o_id order)) (map data_order_id (children c))
           \<and> well_keyed c'"
proof (cases "to_string (o_id order) \<in> set (map data_order_id (children c))")
  case True
  with assms find_elem_id[OF assms(3), of "to_string (o_id order)"] show ?thesis
    by (simp add: addOrderCard_def getOrderCard_def ins_id_def)
next
  case False
  with assms find_elem_id[OF assms(3), of "to_string (o_id order)"] show ?thesis
    by (simp add: addOrderCard_def getOrderCard_def ins_id_def well_keyed_def newCard_def)
qed

lemma foldl_addOrderCard_other [simp]:
  "noOrdersEl (foldl addOrderCard s os) = noOrdersEl s"
  "loadingEl (foldl addOrderCard s os) = loadingEl s"
  "orderCardTemplate (foldl addOrderCard s os) = orderCardTemplate s"
  "riderId (foldl addOrderCard s os) = riderId s"
  "toasts (foldl addOrderCard s os) = toasts s"
  "requests (foldl addOrderCard s os) = requests s"
  "timeouts (foldl addOrderCard s os) = timeouts s"
  "intervals (foldl addOrderCard s os) = intervals s"
  "emitted (foldl addOrderCard s os) = emitted s"
  "reloaded (foldl addOrderCard s os) = reloaded s"
  "socket (foldl addOrderCard s os) = socket s"
  by (induction os arbitrary: s; simp)+

lemma foldl_addOrderCard_container:
  assumes "container s = Some c" "orderCardTemplate s = Some t" "well_keyed c"
  shows "\<exists>c'. container (foldl addOrderCard s os) = Some c' \<and> displayed c' = displayed c
           \<and> map data_order_id (children c')
               = foldl (\<lambda>ks key. ins_id key ks) (map data_order_id (children c))
                   (map (\<lambda>order. to_string (o_id order)) os)
           \<and> well_keyed c'"
  using assms
proof (induction os arbitrary: s c)
  case Nil
  then show ?case by simp
next
  case (Cons order os)
  from addOrderCard_container[OF Cons.prems, of order] obtain c1 where
    c1: "container (addOrderCard s order) = Some c1" "displayed c1 = displayed c"
      "map data_order_id (children c1)
         = ins_id (to_string (o_id order)) (map data_order_id (children c))"
      "well_keyed c1" by blast
  have t: "orderCardTemplate (addOrderCard s order) = Some t" using Cons.prems by simp
  from Cons.IH[OF c1(1) t c1(4)] c1 show ?case by simp
qed

lemma foldl_ins_id_nil: "foldl (\<lambda>ks key. ins_id key ks) [] keys = remdups (rev keys)"
  by (induction keys rule: rev_induct) (simp_all add: ins_id_def)

lemma getOrderCard_addOrderCard:
  "container s = Some c \<Longrightarrow> orderCardTemplate s = Some t \<Longrightarrow>
   getOrderCard (addOrderCard s order) (''order-'' @ to_string (o_id order)) \<noteq> None"
  by (cases "getOrderCard s (''order-'' @ to_string (o_id order))")
     (simp_all add: addOrderCard_def getOrderCard_def newCard_def)

lemma addOrderCard_present:
  "getOrderCard s (''order-'' @ to_string (o_id order)) \<noteq> None \<Longrightarrow>
   container (addOrderCard s order) = container s"
  by (simp add: addOrderCard_def split: option.splits)

lemma addOrderCard_twice:
  "container (addOrderCard (addOrderCard s order) order) = container (addOrderCard s order)"
proof (cases "container s")
  case None
  then show ?thesis by (simp add: addOrderCard_def)
next
  case (Some c)
  show ?thesis
  proof (cases "orderCardTemplate s")
    case None
    with Some show ?thesis by (simp add: addOrderCard_def)
  next
    case (Some t)
    from getOrderCard_addOrderCard[OF \<open>container s = Some c\<close> Some]
    show ?thesis by (rule addOrderCard_present)
  qed
qed

lemma addOrderCard_displayed:
  "container s = Some c \<Longrightarrow>
   \<exists>c'. container (addOrderCard s order) = Some c' \<and> displayed c' = displayed c"
  by (simp add: addOrderCard_def split: option.splits)

lemma getOrderCard_cong:
  "container s = container s' \<Longrightarrow> getOrderCard s eid = getOrderCard s' eid"
  by (simp add: getOrderCard_def)

lemma handleNewOrder_container:
  "truthy (o_id (unwrap d)) \<Longrightarrow>
   container (handleNewOrder s d) = container (addOrderCard (show_orders s) (unwrap d))"
  by (simp add: handleNewOrder_def show_orders_def showToast_def Let_def)

lemma handleNewOrder_twice:
  "container (handleNewOrder (handleNewOrder s d) d) = container (handleNewOrder s d)"
proof (cases "truthy (o_id (unwrap d))")
  case False
  then show ?thesis by (simp add: handleNewOrder_def)
next
  case True
  let ?o = "unwrap d"
  let ?A = "addOrderCard (show_orders s) ?o"
  let ?H = "handleNewOrder s d"
  have H: "container ?H = container ?A" by (rule handleNewOrder_container[OF True])
  have HH: "container (handleNewOrder ?H d) = container (addOrderCard (show_orders ?H) ?o)"
    by (rule handleNewOrder_container[OF True])
  have tplH: "orderCardTemplate ?H = orderCardTemplate s"
    using True by (simp add: handleNewOrder_def showToast_def Let_def)
  show ?thesis
  proof (cases "container s")
    case None
    then have "container ?A = None"
      by (simp add: addOrderCard_def show_orders_def setContainerDisplay_def)
    moreover from this H have "container (show_orders ?H) = None"
      by (simp add: show_orders_def setContainerDisplay_def)
    then have "container (addOrderCard (show_orders ?H) ?o) = None"
      by (simp add: addOrderCard_def)
    ultimately show ?thesis using H HH by simp
  next
    case (Some c)
    then have cs: "container (show_orders s) = Some (c\<lparr>displayed := True\<rparr>)"
      by (simp add: show_orders_def setContainerDisplay_def)
    from addOrderCard_displayed[OF cs, of ?o] obtain cA where
      cA: "container ?A = Some cA" "displayed cA" by auto
    have sH: "container (show_orders ?H) = Some cA"
      using H cA by (simp add: show_orders_def setContainerDisplay_def)
    show ?thesis
    proof (cases "orderCardTemplate s")
      case None
      then have "orderCardTemplate (show_orders ?H) = None"
        using tplH by (simp add: show_orders_def)
      with sH have "container (addOrderCard (show_orders ?H) ?o) = Some cA"
        by (simp add: addOrderCard_def)
      with H HH cA show ?thesis by simp
    next
      case (Some t)
      then have "orderCardTemplate (show_orders s) = Some t" by (simp add: show_orders_def)
      from getOrderCard_addOrderCard[OF cs this, of ?o]
      have "getOrderCard ?A (''order-'' @ to_string (o_id ?o)) \<noteq> None" .
      moreover have "getOrderCard (show_orders ?H) (''order-'' @ to_string (o_id ?o))
                   = getOrderCard ?A (''order-'' @ to_string (o_id ?o))"
        by (rule getOrderCard_cong) (simp add: sH cA)
      ultimately have "container (addOrderCard (show_orders ?H) ?o) = container (show_orders ?H)"
        by (simp add: addOrderCard_present)
      with sH H HH cA show ?thesis by simp
    qed
  qed
qed

subsection \<open>The answer to a snapshot fetch\<close>

lemma loadAvailableOrders_then_nonempty:
  assumes "container s = Some c" "orderCardTemplate s = Some t" "j_success data"
    "orders_of data \<noteq> []"
  shows "\<exists>c'. container (loadAvailableOrders_then s data) = Some c' \<and> displayed c'
           \<and> map data_order_id (children c')
               = remdups (rev (map (\<lambda>order. to_string (o_id order)) (orders_of data)))
           \<and> well_keyed c'"
proof -
  let ?c0 = "c\<lparr>displayed := True, children := []\<rparr>"
  let ?s2 = "s\<lparr>loadingEl := setDisplay False (loadingEl s),
               container := Some ?c0,
               noOrdersEl := setDisplay False (noOrdersEl s)\<rparr>"
  have "\<exists>c'. container (foldl addOrderCard ?s2 (orders_of data)) = Some c'
           \<and> displayed c' = displayed ?c0
           \<and> map data_order_id (children c')
               = foldl (\<lambda>ks key. ins_id key ks) (map data_order_id (children ?c0))
                   (map (\<lambda>order. to_string (o_id order)) (orders_of data))
           \<and> well_keyed c'"
    by (rule foldl_addOrderCard_container[where t = t]) (simp_all add: assms well_keyed_def)
  moreover have "loadAvailableOrders_then s data = foldl addOrderCard ?s2 (orders_of data)"
    using assms by (simp add: loadAvailableOrders_then_def)
  ultimately show ?thesis by (auto simp: foldl_ins_id_nil)
qed


lemma loadAvailableOrders_then_other [simp]:
  "orderCardTemplate (loadAvailableOrders_then s data) = orderCardTemplate s"
  "riderId (loadAvailableOrders_then s data) = riderId s"
  "intervals (loadAvailableOrders_then s data) = intervals s"
  "requests (loadAvailableOrders_then s data) = requests s"
  "timeouts (loadAvailableOrders_then s data) = timeouts s"
  "toasts (loadAvailableOrders_then s data) = toasts s"
  by (simp_all add: loadAvailableOrders_then_def Let_def)



lemma length_update_first [simp]: "length (update_first P f xs) = length xs"
  by (induction xs) simp_all




subsection \<open>A late add after a remove\<close>










lemma removeCard_timeout_template [simp]:
  "orderCardTemplate (removeCard_timeout s n) = orderCardTemplate s"
  by (simp add: removeCard_timeout_def Let_def split: option.splits)






subsection \<open>Deduplication of added orders\<close>

text \<open>
  Claim C3. \<open>addOrderCard\<close> called again with an id that already has a card leaves the
  container as it is: no second card is made. This holds when the first copy came from
  the same call, from a push (\<open>handleNewOrder\<close>) or from a snapshot
  (\<open>loadAvailableOrders_then\<close>). On the dashboard page the branch for an existing id
  hands the card to \<open>updateExistingOrder\<close> and adds none.
\<close>

theorem C3_addOrderCard_dedup:
  "container (addOrderCard (addOrderCard s order) order) = container (addOrderCard s order)
   \<and> visible_ids (addOrderCard (addOrderCard s order) order) = visible_ids (addOrderCard s order)
   \<and> (getOrderCard s (''order-'' @ to_string (o_id order)) \<noteq> None \<longrightarrow>
        container (addOrderCard s order) = container s)
   \<and> container (handleNewOrder (handleNewOrder s d) d) = container (handleNewOrder s d)
   \<and> (container s \<noteq> None \<and> orderCardTemplate s \<noteq> None \<and> j_success data
        \<and> order \<in> set (orders_of data) \<longrightarrow>
        container (addOrderCard (loadAvailableOrders_then s data) order)
          = container (loadAvailableOrders_then s data))
   \<and> (\<forall>ch. d_container ds = Some ch
          \<and> find (\<lambda>k. dc_order_id k = to_string (do_order_id dord)) ch \<noteq> None \<longrightarrow>
        map_option length (d_container (snd (addOrderToAvailableOrders upd ds dord)))
          = Some (length ch))"
proof (intro conjI impI allI)
  show "container (addOrderCard (addOrderCard s order) order) = container (addOrderCard s order)"
    by (rule addOrderCard_twice)
  then show "visible_ids (addOrderCard (addOrderCard s order) order)
               = visible_ids (addOrderCard s order)"
    by (simp add: visible_ids_def)
  show "container (addOrderCard s order) = container s"
    if "getOrderCard s (''order-'' @ to_string (o_id order)) \<noteq> None"
    using that by (rule addOrderCard_present)
  show "container (handleNewOrder (handleNewOrder s d) d) = container (handleNewOrder s d)"
    by (rule handleNewOrder_twice)
  show "container (addOrderCard (loadAvailableOrders_then s data) order)
          = container (loadAvailableOrders_then s data)"
    if h: "container s \<noteq> None \<and> orderCardTemplate s \<noteq> None \<and> j_success data
        \<and> order \<in> set (orders_of data)"
  proof -
    from h obtain c t where ct: "container s = Some c" "orderCardTemplate s = Some t" by auto
    from h have ne: "orders_of data \<noteq> []" by auto
    from loadAvailableOrders_then_nonempty[OF ct _ ne] h obtain c' where
      c': "container (loadAvailableOrders_then s data) = Some c'"
        "map data_order_id (children c')
           = remdups (rev (map (\<lambda>order. to_string (o_id order)) (orders_of data)))"
        "well_keyed c'" by auto
    from h have "to_string (o_id order) \<in> set (map data_order_id (children c'))"
      by (simp add: c'(2)) 
    with find_elem_id[OF c'(3), of "to_string (o_id order)"]
    have "getOrderCard (loadAvailableOrders_then s data) (''order-'' @ to_string (o_id order)) \<noteq> None"
      by (simp add: getOrderCard_def c'(1))
    then show ?thesis by (rule addOrderCard_present)
  qed
  show "map_option length (d_container (snd (addOrderToAvailableOrders upd ds dord)))
          = Some (length ch)"
    if "d_container ds = Some ch
          \<and> find (\<lambda>k. dc_order_id k = to_string (do_order_id dord)) ch \<noteq> None" for ch
    using that by (auto simp: addOrderToAvailableOrders_def Let_def split: option.splits)
qed

theorem C3_addOrderCard_dedup_witness:
  "getOrderCard example_loaded (''order-'' @ to_string (o_id (example_order 2))) \<noteq> None
   \<and> container (addOrderCard example_loaded (example_order 2)) = container example_loaded
   \<and> (container example_page \<noteq> None \<and> orderCardTemplate example_page \<noteq> None
        \<and> j_success example_snapshot \<and> example_order 2 \<in> set (orders_of example_snapshot))
   \<and> container (addOrderCard (loadAvailableOrders_then example_page example_snapshot)
        (example_order 2))
       = container (loadAvailableOrders_then example_page example_snapshot)
   \<and> (d_container example_dash = Some [\<lparr>dc_order_id = ''4'', dc_number = ''ORD-4''\<rparr>]
        \<and> find (\<lambda>k. dc_order_id k = to_string (do_order_id example_dorder))
             [\<lparr>dc_order_id = ''4'', dc_number = ''ORD-4''\<rparr>] \<noteq> None)
   \<and> map_option length
        (d_container (snd (addOrderToAvailableOrders None example_dash example_dorder)))
       = Some (length [\<lparr>dc_order_id = ''4'', dc_number = ''ORD-4''\<rparr>])"
proof -
  have h1: "getOrderCard example_loaded (''order-'' @ to_string (o_id (example_order 2))) \<noteq> None"
    by (simp add: example_loaded_eq getOrderCard_def example_card_def example_order_def js_eval)
  have h2: "container example_page \<noteq> None \<and> orderCardTemplate example_page \<noteq> None
        \<and> j_success example_snapshot \<and> example_order 2 \<in> set (orders_of example_snapshot)"
    by (simp add: example_page_def example_snapshot_def orders_of_def)
  have h3: "d_container example_dash = Some [\<lparr>dc_order_id = ''4'', dc_number = ''ORD-4''\<rparr>]
        \<and> find (\<lambda>k. dc_order_id k = to_string (do_order_id example_dorder))
             [\<lparr>dc_order_id = ''4'', dc_number = ''ORD-4''\<rparr>] \<noteq> None"
    by (simp add: example_dash_def example_dorder_def js_eval)
  note a = C3_addOrderCard_dedup[of example_loaded "example_order 2" "Wrapped (example_order 2)"
      example_snapshot example_dash example_dorder None]
  note b = C3_addOrderCard_dedup[of example_page "example_order 2" "Wrapped (example_order 2)"
      example_snapshot example_dash example_dorder None]
  from a h1 have c1: "container (addOrderCard example_loaded (example_order 2)) = container example_loaded"
    by blast
  from b h2 have c2: "container (addOrderCard (loadAvailableOrders_then example_page example_snapshot)
        (example_order 2))
       = container (loadAvailableOrders_then example_page example_snapshot)" by blast
  from a h3 have c3: "map_option length
        (d_container (snd (addOrderToAvailableOrders None example_dash example_dorder)))
       = Some (length [\<lparr>dc_order_id = ''4'', dc_number = ''ORD-4''\<rparr>])"
    by blast
  from h1 h2 h3 c1 c2 c3 show ?thesis by blast
qed

subsection \<open>Accept calls in flight\<close>







subsection \<open>Replacing the list by a snapshot\<close>



subsection \<open>Failed actions\<close>

lemma updateCard_ids:
  assumes "\<And>k. data_order_id (f k) = data_order_id k"
  shows "card_ids (updateCard n f s) = card_ids s"
    and "visible_ids (updateCard n f s) = visible_ids s"
  by (cases "container s"; simp add: card_ids_def visible_ids_def updateCard_def assms comp_def)+

lemma setButton_ids [simp]:
  "card_ids (setButton n dis html s) = card_ids s"
  "visible_ids (setButton n dis html s) = visible_ids s"
  by (simp_all add: setButton_def updateCard_ids)

lemma setButton_other [simp]:
  "toasts (setButton n dis html s) = toasts s"
  "requests (setButton n dis html s) = requests s"
  "timeouts (setButton n dis html s) = timeouts s"
  "errors (setButton n dis html s) = errors s"
  "reloaded (setButton n dis html s) = reloaded s"
  by (simp_all add: setButton_def updateCard_def)


lemma accept_button_cong:
  "container s = container s' \<Longrightarrow> accept_button s n = accept_button s' n"
  by (simp add: accept_button_def)

lemma ids_field_updates [simp]:
  "card_ids (s\<lparr>requests := rs\<rparr>) = card_ids s"
  "card_ids (s\<lparr>toasts := ts\<rparr>) = card_ids s"
  "card_ids (s\<lparr>errors := es\<rparr>) = card_ids s"
  "card_ids (s\<lparr>timeouts := tm\<rparr>) = card_ids s"
  "visible_ids (s\<lparr>requests := rs\<rparr>) = visible_ids s"
  "visible_ids (s\<lparr>toasts := ts\<rparr>) = visible_ids s"
  "visible_ids (s\<lparr>errors := es\<rparr>) = visible_ids s"
  "visible_ids (s\<lparr>timeouts := tm\<rparr>) = visible_ids s"
  by (simp_all add: card_ids_def visible_ids_def)

lemma accept_button_field_updates [simp]:
  "accept_button (s\<lparr>requests := rs\<rparr>) n = accept_button s n"
  "accept_button (s\<lparr>toasts := ts\<rparr>) n = accept_button s n"
  "accept_button (s\<lparr>errors := es\<rparr>) n = accept_button s n"
  by (simp_all add: accept_button_def)




lemma order_ids_of_on_button [simp]:
  "order_ids_of (map (on_button n f) ch) = order_ids_of ch"
  by (induction ch rule: order_ids_of.induct) simp_all


lemma ws_obs_field_updates [simp]:
  "ws_order_ids (s\<lparr>ws_errors := es\<rparr>) = ws_order_ids s"
  "ws_order_ids (s\<lparr>ws_toasts := ts\<rparr>) = ws_order_ids s"
  "ws_find_button (s\<lparr>ws_errors := es\<rparr>) n = ws_find_button s n"
  "ws_find_button (s\<lparr>ws_toasts := ts\<rparr>) n = ws_find_button s n"
  by (simp_all add: ws_order_ids_def ws_find_button_def)














subsection \<open>What no event changes\<close>

lemma keeps_removeOrderCard [simp]:
  "riderId (removeOrderCard s i) = riderId s"
  "intervals (removeOrderCard s i) = intervals s"
  by (simp_all add: removeOrderCard_def updateCard_def Let_def split: option.splits)

lemma keeps_removeCard_timeout [simp]:
  "riderId (removeCard_timeout s n) = riderId s"
  "intervals (removeCard_timeout s n) = intervals s"
  by (simp_all add: removeCard_timeout_def Let_def split: option.splits)

lemma keeps_loadAvailableOrders [simp]:
  "riderId (loadAvailableOrders s) = riderId s"
  "intervals (loadAvailableOrders s) = intervals s"
  "riderId (loadAvailableOrders_catch s) = riderId s"
  "intervals (loadAvailableOrders_catch s) = intervals s"
  by (simp_all add: loadAvailableOrders_def loadAvailableOrders_catch_def showToast_def)

lemma keeps_setButton [simp]:
  "riderId (setButton n dis html s) = riderId s"
  "intervals (setButton n dis html s) = intervals s"
  by (simp_all add: setButton_def updateCard_def)

lemma keeps_acceptOrder [simp]:
  "riderId (acceptOrder s c i) = riderId s"
  "intervals (acceptOrder s c i) = intervals s"
  "riderId (acceptOrder_then s i btn data) = riderId s"
  "intervals (acceptOrder_then s i btn data) = intervals s"
  "riderId (acceptOrder_catch s btn) = riderId s"
  "intervals (acceptOrder_catch s btn) = intervals s"
  by (simp_all add: acceptOrder_def acceptOrder_then_def acceptOrder_catch_def showToast_def
      Let_def split: option.splits)

lemma keeps_push_handlers [simp]:
  "riderId (handleNewOrder s d) = riderId s"
  "intervals (handleNewOrder s d) = intervals s"
  "riderId (handleOrderTaken s td) = riderId s"
  "intervals (handleOrderTaken s td) = intervals s"
  "riderId (handleOrderAccepted s ad) = riderId s"
  "intervals (handleOrderAccepted s ad) = intervals s"
  "riderId (on_connect s) = riderId s"
  "intervals (on_connect s) = intervals s"
  "riderId (on_reconnect s) = riderId s"
  "intervals (on_reconnect s) = intervals s"
  by (simp_all add: handleNewOrder_def handleOrderTaken_def handleOrderAccepted_def
      on_connect_def on_reconnect_def showToast_def Let_def)

lemma keeps_clickAcceptBtn [simp]:
  "riderId (clickAcceptBtn s n c) = riderId s"
  "intervals (clickAcceptBtn s n c) = intervals s"
  by (simp_all add: clickAcceptBtn_def split: option.splits)

lemma keeps_respond [simp]:
  "riderId (respond s k r) = riderId s"
  "intervals (respond s k r) = intervals s"
  by (simp_all add: respond_def Let_def split: request.splits option.splits)

lemma keeps_run_callback [simp]:
  "riderId (run_callback s cb) = riderId s"
  "intervals (run_callback s cb) = intervals s"
  by (cases cb; simp)+

lemma keeps_handle [simp]:
  "riderId (handle s e) = riderId s"
  "intervals (handle s e) = intervals s"
  by (cases e; simp add: handle_def fire_timeout_def fire_interval_def)+

lemma keeps_run [simp]:
  "riderId (run s es) = riderId s"
  "intervals (run s es) = intervals s"
  unfolding run_def by (induction es arbitrary: s; simp)+

lemma ws_conn_riderId [simp]: "ws_riderId (foldl ws_conn_handle w cs) = ws_riderId w"
proof (induction cs arbitrary: w)
  case Nil
  show ?case by simp
next
  case (Cons e cs)
  have "ws_riderId (ws_conn_handle w e) = ws_riderId w"
    by (cases e)
       (simp_all add: ws_on_connect_def ws_on_reconnect_def ws_on_disconnect_def
          ws_on_connect_error_def updateConnectionStatus_def)
  with Cons.IH[of "ws_conn_handle w e"] show ?case by simp
qed

lemma sl_conn_sellerId [simp]: "sl_sellerId (foldl sl_conn_handle sl cs) = sl_sellerId sl"
proof (induction cs arbitrary: sl)
  case Nil
  show ?case by simp
next
  case (Cons e cs)
  have "sl_sellerId (sl_conn_handle sl e) = sl_sellerId sl"
    by (cases e)
       (simp_all add: sl_on_connect_def sl_on_reconnect_def sl_on_disconnect_def
          sl_updateConnectionStatus_def)
  with Cons.IH[of "sl_conn_handle sl e"] show ?case by simp
qed

subsection \<open>Subscriptions on connect\<close>

text \<open>
  Claim C6 as stated fails for the seller client: on \<open>connect\<close> it emits one message, the
  join of the seller's own room, and neither a presence announcement nor the join of a shared
  room.
\<close>

theorem C6_seller_subscription_counterexample:
  "sl_emitted example_seller = []
   \<and> sl_emitted (sl_on_connect example_seller) = [JoinSellerRoom (JStr ''3'')]
   \<and> sl_emitted (sl_on_reconnect example_seller) = [JoinSellerRoom (JStr ''3'')]"
  by (simp add: example_seller_def sl_on_connect_def sl_on_reconnect_def
      sl_updateConnectionStatus_def)

text \<open>
  Claim C6, amended. The transport raises \<open>connect\<close> on the first connection and on
  every reconnection, and each client emits the same subscriptions every time, built from
  its own id, which no handler changes. The widget's \<open>connect\<close> handler emits the joins
  of the rider's own room and of the shared room and the presence announcement, whatever
  events the page has handled before; its \<open>reconnect\<close> handler emits nothing and reloads
  the orders. The dashboard client emits presence and the join of the riders' room on
  \<open>connect\<close> and again in its \<open>reconnect\<close> handler. The seller client emits only the
  join of its own room, in both handlers.
\<close>

theorem C6_resubscribe_on_connect:
  "riderId (run s es) = riderId s
   \<and> emitted (on_connect (run s es))
       = emitted (run s es)
           @ [Join (''rider_'' @ to_string (riderId s)), Join ''available_orders'',
              RiderOnline (riderId s)]
   \<and> emitted (handle (run s es) SocketConnect)
       = (if socket (run s es) \<and> \<not> reloaded (run s es)
          then emitted (run s es)
                 @ [Join (''rider_'' @ to_string (riderId s)), Join ''available_orders'',
                    RiderOnline (riderId s)]
          else emitted (run s es))
   \<and> emitted (on_reconnect (run s es)) = emitted (run s es)
   \<and> ws_emitted (ws_on_connect (foldl ws_conn_handle w cs))
       = ws_emitted (foldl ws_conn_handle w cs) @ [WsRiderOnline (ws_riderId w), JoinRidersRoom]
   \<and> ws_emitted (ws_on_reconnect (foldl ws_conn_handle w cs))
       = ws_emitted (foldl ws_conn_handle w cs) @ [WsRiderOnline (ws_riderId w), JoinRidersRoom]
   \<and> sl_emitted (sl_on_connect (foldl sl_conn_handle sl scs))
       = sl_emitted (foldl sl_conn_handle sl scs) @ [JoinSellerRoom (sl_sellerId sl)]
   \<and> sl_emitted (sl_on_reconnect (foldl sl_conn_handle sl scs))
       = sl_emitted (foldl sl_conn_handle sl scs) @ [JoinSellerRoom (sl_sellerId sl)]"
  by (simp add: on_connect_def on_reconnect_def loadAvailableOrders_def handle_def
      ws_on_connect_def ws_on_reconnect_def updateConnectionStatus_def
      sl_on_connect_def sl_on_reconnect_def sl_updateConnectionStatus_def)

subsection \<open>The periodic snapshot fetch\<close>

lemma remove_nth_last [simp]: "remove_nth (length xs) (xs @ [x]) = xs"
  by (simp add: remove_nth_def)








subsection \<open>Missing elements\<close>




subsection \<open>An acceptance by this rider\<close>






subsection \<open>The "no orders" message\<close>












end
